theory Spec2Isabelle
  imports Main "HOL-Library.Sublist"
begin

section \<open>Octets, streams and errors\<close>

text \<open>
  An octet is a \<^typ>\<open>char\<close> (eight bits); Python's \<open>bytes\<close> is a list of them.
  Python's \<open>str\<close> is kept in its UTF-8 encoding, so an ASCII text is the same list
  of characters as its bytes.
\<close>

type_synonym bytes = "char list"

datatype error =
    UnexpectedEnd
  | ProtocolError string
  | UnicodeDecodeError
  | ValueError
  | NextLayerError

text \<open>
  Python values as the decoders hand them on: \<open>None\<close>, texts, octet strings,
  integers, tuples, and dictionaries (\<open>dict\<close> and \<open>Info\<close>) with their entries in
  insertion order.
\<close>

datatype pyval =
    PNone
  | PStr string
  | PBytes bytes
  | PInt int
  | PTuple "pyval list"
  | PDict "(string \<times> pyval) list"

text \<open>Sequencing of fallible steps: the first raised error ends the computation.\<close>

definition and_then :: "error + 'a \<Rightarrow> ('a \<Rightarrow> error + 'b) \<Rightarrow> error + 'b" where
  "and_then r k = (case r of Inl e \<Rightarrow> Inl e | Inr v \<Rightarrow> k v)"

text \<open>
  The stream a decoder reads from (\<open>self._file\<close>, an \<open>io.BytesIO\<close>) is modelled by
  the octets not yet read; reading removes octets from the front.
\<close>

type_synonym stream = bytes

text \<open>
  \<open>BytesIO.read(size)\<close>: with no size (or \<open>None\<close>) everything that is left, else at
  most \<open>size\<close> octets.
\<close>

definition file_read :: "nat option \<Rightarrow> stream \<Rightarrow> bytes \<times> stream" where
  "file_read size' f =
     (case size' of None \<Rightarrow> (f, []) | Some n \<Rightarrow> (take n f, drop n f))"

text \<open>
  Modelled from the spec: the helpers \<open>_read_fileng\<close> and \<open>_read_unpack\<close> of the
  \<open>Protocol\<close> base class are not among the sources. The spec's byte cursor gives their
  contract: \<open>read(n)\<close> returns exactly \<open>n\<close> octets or fails with UnexpectedEnd when
  fewer remain and advances the position by \<open>n\<close>; \<open>read_uint(n)\<close> returns the
  big-endian unsigned value of the next \<open>n\<close> octets and fails identically.
\<close>

definition read_fileng :: "nat \<Rightarrow> stream \<Rightarrow> error + (bytes \<times> stream)" where
  "read_fileng n f =
     (if n \<le> length f then Inr (take n f, drop n f) else Inl UnexpectedEnd)"

definition unpack_be :: "bytes \<Rightarrow> nat" where
  "unpack_be bs = foldl (\<lambda>acc b. acc * 256 + of_char b) 0 bs"

definition read_unpack :: "nat \<Rightarrow> stream \<Rightarrow> error + (nat \<times> stream)" where
  "read_unpack n f =
     and_then (read_fileng n f) (\<lambda>(bs, f'). Inr (unpack_be bs, f'))"

section \<open>Python text helpers\<close>

text \<open>\<open>str(n)\<close> for a non-negative integer: its decimal digits.\<close>

definition digit_char :: "nat \<Rightarrow> char" where
  "digit_char d = ''0123456789'' ! d"

fun str_of_nat :: "nat \<Rightarrow> string" where
  "str_of_nat n = (if n < 10 then [digit_char n] else str_of_nat (n div 10) @ [digit_char (n mod 10)])"

declare str_of_nat.simps [simp del]

text \<open>\<open>bytes.hex()\<close>: two lowercase hexadecimal digits for each octet.\<close>

definition hex_digit :: "nat \<Rightarrow> char" where
  "hex_digit d = ''0123456789abcdef'' ! d"

definition hex_of_byte :: "char \<Rightarrow> string" where
  "hex_of_byte b = [hex_digit (of_char b div 16), hex_digit (of_char b mod 16)]"

definition hex :: "bytes \<Rightarrow> string" where
  "hex bs = concat (map hex_of_byte bs)"

text \<open>
  \<open>textwrap.wrap(s, 2)\<close> on a text of hexadecimal digits (no whitespace, no hyphen):
  the text is cut into pieces of two characters, the last one shorter when the length
  is odd; the empty text gives no piece.
\<close>

fun wrap2 :: "string \<Rightarrow> string list" where
  "wrap2 [] = []"
| "wrap2 [a] = [[a]]"
| "wrap2 (a # b # s) = [a, b] # wrap2 s"

text \<open>\<open>sep.join(parts)\<close>.\<close>

fun join :: "string \<Rightarrow> string list \<Rightarrow> string" where
  "join sep [] = []"
| "join sep [p] = p"
| "join sep (p # q # ps) = p @ sep @ join sep (q # ps)"

text \<open>ASCII lower-casing, for case-insensitive matching of registry names.\<close>

definition lower_char :: "char \<Rightarrow> char" where
  "lower_char c =
     (case map_of (zip ''ABCDEFGHIJKLMNOPQRSTUVWXYZ'' ''abcdefghijklmnopqrstuvwxyz'') c of
        None \<Rightarrow> c
      | Some l \<Rightarrow> l)"

text \<open>\<open>sub in s\<close>: the text \<open>sub\<close> occurs somewhere in \<open>s\<close>.\<close>

fun contains :: "string \<Rightarrow> string \<Rightarrow> bool" where
  "contains sub [] = (sub = [])"
| "contains sub (c # s) = (prefix sub (c # s) \<or> contains sub s)"

text \<open>
  \<open>re.match(r'.*Ethernet.*', name, re.IGNORECASE)\<close>: the match starts at the start of
  the name and \<open>.\<close> does not match a newline, so it succeeds exactly when the first
  line of the name contains \<open>ethernet\<close> in any letter case.
\<close>

definition match_ethernet :: "string \<Rightarrow> bool" where
  "match_ethernet name =
     contains ''ethernet'' (map lower_char (takeWhile (\<lambda>c. c \<noteq> CHR 0x0A) name))"

section \<open>The ARP family decoder (pcapkit/protocols/link/arp.py)\<close>

text \<open>
  An address as the decoder renders it: a colon-separated hexadecimal text, an
  \<open>ipaddress.IPv4Address\<close> or \<open>IPv6Address\<close> built from the packed octets, or the
  raw octets.
\<close>

datatype address =
    HexAddr string
  | IPv4Address bytes
  | IPv6Address bytes
  | RawAddr bytes

text \<open>The \<open>ptype\<close> entry: a member of the EtherType registry or a text.\<close>

datatype 'e ptype_value = Registered 'e | Text string

record ('e, 'o) arp_info =
  htype :: string
  ptype :: "'e ptype_value"
  hlen :: nat
  plen :: nat
  oper :: 'o
  sha :: address
  spa :: address
  tha :: address
  tpa :: address
  len :: nat

text \<open>
  What \<open>read_arp\<close> leaves behind: the \<open>arp\<close> dictionary, the names it stores in
  \<open>self._acnm\<close> and \<open>self._name\<close>, the payload length left after
  \<open>length -= arp['len']\<close>, and what is left of the stream.
\<close>

record ('e, 'o) arp_result =
  arp :: "('e, 'o) arp_info"
  acnm :: string
  name :: string
  payload_length :: int
  stream_left :: stream

definition read_addr_resolve :: "nat \<Rightarrow> nat \<Rightarrow> stream \<Rightarrow> error + (address \<times> stream)" where
  "read_addr_resolve length' htype' f =
     (if htype' = 1
      then and_then (read_fileng 6 f) (\<lambda>(byte, f'). Inr (HexAddr (join '':'' (wrap2 (hex byte))), f'))
      else and_then (read_fileng length' f) (\<lambda>(addr, f'). Inr (RawAddr addr, f')))"

definition read_proto_resolve :: "nat \<Rightarrow> nat \<Rightarrow> stream \<Rightarrow> error + (address \<times> stream)" where
  "read_proto_resolve length' ptype' f =
     (if ptype' = 0x0800
      then and_then (read_fileng 4 f) (\<lambda>(b, f'). Inr (IPv4Address b, f'))
      else if ptype' = 0x86dd
      then and_then (read_fileng 16 f) (\<lambda>(b, f'). Inr (IPv6Address b, f'))
      else and_then (read_fileng length' f) (\<lambda>(b, f'). Inr (RawAddr b, f')))"

text \<open>
  \<open>read_arp\<close>, up to the \<open>arp\<close> dictionary and the payload length. The registries
  \<open>HRD\<close>, \<open>ETHERTYPE\<close> and \<open>OPER\<close> (\<open>pcapkit.const\<close>) are not among the sources and
  are parameters: \<open>HRD\<close> gives the name of a hardware type, which the decoder matches
  against \<open>Ethernet\<close>. The \<open>packet\<close> entry and the next layer are added afterwards by
  base-class methods that are not among the sources; they are left out.
\<close>

definition read_arp ::
  "(nat \<Rightarrow> string) \<Rightarrow> (nat \<Rightarrow> 'e) \<Rightarrow> (nat \<Rightarrow> 'o) \<Rightarrow> int \<Rightarrow> stream \<Rightarrow> error + ('e, 'o) arp_result" where
  "read_arp HRD ETHERTYPE OPER length' f =
     and_then (read_unpack 2 f) (\<lambda>(hwty, f1).
     and_then (read_unpack 2 f1) (\<lambda>(ptty, f2).
     and_then (read_unpack 1 f2) (\<lambda>(hlen', f3).
     and_then (read_unpack 1 f3) (\<lambda>(plen', f4).
     and_then (read_unpack 2 f4) (\<lambda>(oper', f5).
     and_then (read_addr_resolve hlen' hwty f5) (\<lambda>(shwa, f6).
     and_then (read_proto_resolve plen' ptty f6) (\<lambda>(spta, f7).
     and_then (read_addr_resolve hlen' hwty f7) (\<lambda>(thwa, f8).
     and_then (read_proto_resolve plen' ptty f8) (\<lambda>(tpta, f9).
       let (acnm', name') =
             (if oper' \<in> {5, 6, 7} then (''DRARP'', ''Dynamic Reverse Address Resolution Protocol'')
              else if oper' \<in> {8, 9} then (''InARP'', ''Inverse Address Resolution Protocol'')
              else if oper' \<in> {3, 4} then (''RARP'', ''Reverse Address Resolution Protocol'')
              else (''ARP'', ''Address Resolution Protocol''));
           htype' = HRD hwty;
           ptype' = (if match_ethernet htype' then Registered (ETHERTYPE ptty)
                     else Text (''Unknown ['' @ str_of_nat ptty @ '']''));
           arp' = \<lparr>htype = htype', ptype = ptype', hlen = hlen', plen = plen',
                   oper = OPER oper', sha = shwa, spa = spta, tha = thwa, tpa = tpta,
                   len = 8 + hlen' * 2 + plen' * 2\<rparr>
       in Inr \<lparr>arp = arp', acnm = acnm', name = name',
               payload_length = length' - int (len arp'), stream_left = f9\<rparr>)))))))))"


text \<open>
  For statements about a packet: the big-endian value of the \<open>n\<close> octets at octet
  \<open>i\<close> of the stream. By the header layout of the module's documentation \<open>htype\<close> is
  at octet 0, \<open>ptype\<close> at 2, \<open>hlen\<close> at 4, \<open>plen\<close> at 5 and \<open>oper\<close> at 6.
\<close>

definition wire_field :: "nat \<Rightarrow> nat \<Rightarrow> stream \<Rightarrow> nat" where
  "wire_field i n f = unpack_be (take n (drop i f))"

text \<open>The pair of names \<open>read_arp\<close> chooses, as a function of the operation code.\<close>

definition variant_names :: "nat \<Rightarrow> string \<times> string" where
  "variant_names op =
     (if op \<in> {5, 6, 7} then (''DRARP'', ''Dynamic Reverse Address Resolution Protocol'')
      else if op \<in> {8, 9} then (''InARP'', ''Inverse Address Resolution Protocol'')
      else if op \<in> {3, 4} then (''RARP'', ''Reverse Address Resolution Protocol'')
      else (''ARP'', ''Address Resolution Protocol''))"

text \<open>Scenario packets: S1 (ARP request, Ethernet/IPv4) and S2 (the same with \<open>oper = 8\<close>).\<close>

definition S1 :: bytes where
  "S1 = [CHR 0x00, CHR 0x01, CHR 0x08, CHR 0x00, CHR 0x06, CHR 0x04, CHR 0x00, CHR 0x01,
         CHR 0xaa, CHR 0xbb, CHR 0xcc, CHR 0xdd, CHR 0xee, CHR 0xff,
         CHR 0x0a, CHR 0x00, CHR 0x00, CHR 0x01,
         CHR 0x00, CHR 0x00, CHR 0x00, CHR 0x00, CHR 0x00, CHR 0x00,
         CHR 0x0a, CHR 0x00, CHR 0x00, CHR 0x02]"


text \<open>A Frame Relay packet (hardware type 15) with two-octet hardware addresses.\<close>

definition FR1 :: bytes where
  "FR1 = [CHR 0x00, CHR 0x0f, CHR 0x08, CHR 0x00, CHR 0x02, CHR 0x04, CHR 0x00, CHR 0x01,
          CHR 0x04, CHR 0x01, CHR 0x0a, CHR 0x00, CHR 0x00, CHR 0x01,
          CHR 0x00, CHR 0x00, CHR 0x0a, CHR 0x00, CHR 0x00, CHR 0x02]"

text \<open>A small hardware-type registry for the concrete runs: 1 is Ethernet.\<close>

definition HRD_sample :: "nat \<Rightarrow> string" where
  "HRD_sample n = (if n = 1 then ''Ethernet'' else if n = 15 then ''Frame Relay'' else ''Unassigned'')"

text \<open>
  The address rules as the specification words them, for comparison with the decoder:
  a hardware address is colon-joined hexadecimal only when \<open>htype = 1\<close> and
  \<open>hlen = 6\<close>, a protocol address is an IPv4 address only when \<open>ptype = 0x0800\<close> and
  \<open>plen = 4\<close> and an IPv6 address only when \<open>ptype = 0x86dd\<close> and \<open>plen = 16\<close>;
  otherwise the declared number of octets is read and kept raw.
\<close>

definition spec_addr_resolve :: "nat \<Rightarrow> nat \<Rightarrow> stream \<Rightarrow> error + (address \<times> stream)" where
  "spec_addr_resolve hlen' htype' f =
     and_then (read_fileng hlen' f) (\<lambda>(b, f').
       if htype' = 1 \<and> hlen' = 6 then Inr (HexAddr (join '':'' (map hex_of_byte b)), f')
       else Inr (RawAddr b, f'))"

definition spec_proto_resolve :: "nat \<Rightarrow> nat \<Rightarrow> stream \<Rightarrow> error + (address \<times> stream)" where
  "spec_proto_resolve plen' ptype' f =
     and_then (read_fileng plen' f) (\<lambda>(b, f').
       if ptype' = 0x0800 \<and> plen' = 4 then Inr (IPv4Address b, f')
       else if ptype' = 0x86dd \<and> plen' = 16 then Inr (IPv6Address b, f')
       else Inr (RawAddr b, f'))"

text \<open>Eight and six octets of address data, and an Ethernet/IPv4 packet that declares \<open>hlen = 8\<close>.\<close>

definition HW8 :: bytes where
  "HW8 = [CHR 0x11, CHR 0x12, CHR 0x13, CHR 0x14, CHR 0x15, CHR 0x16, CHR 0x17, CHR 0x18]"

definition PA6 :: bytes where
  "PA6 = [CHR 0x0a, CHR 0x00, CHR 0x00, CHR 0x01, CHR 0x00, CHR 0x02]"

definition ARP_hlen8 :: bytes where
  "ARP_hlen8 = [CHR 0x00, CHR 0x01, CHR 0x08, CHR 0x00, CHR 0x08, CHR 0x04, CHR 0x00, CHR 0x01] @
     HW8 @ [CHR 0x0a, CHR 0x00, CHR 0x00, CHR 0x01] @
     [CHR 0x21, CHR 0x22, CHR 0x23, CHR 0x24, CHR 0x25, CHR 0x26, CHR 0x27, CHR 0x28] @
     [CHR 0x0a, CHR 0x00, CHR 0x00, CHR 0x02]"

section \<open>Next-layer import of the Internet layer (jspcap/protocols/internet/internet.py)\<close>

text \<open>The classes \<open>_import_next_layer\<close> can import.\<close>

datatype next_class = IPv4 | IPv6 | AH | TCP | UDP

text \<open>
  What \<open>_import_next_layer\<close> returns: the triple
  \<open>(next_.info, next_.protochain, next_.length)\<close> or the pair \<open>(data, None)\<close>.
\<close>

datatype 'c imported =
    Imported3 pyval 'c nat
  | Imported2 pyval "'c option"

text \<open>
  \<open>proto\<close> is what \<open>TP_PROTO.get\<close> returned: a name, or \<open>None\<close> for a number the
  table does not have. The imported classes are not among the sources: \<open>Protocol cls f\<close>
  stands for constructing class \<open>cls\<close> on the stream and reading its \<open>info\<close>,
  \<open>protochain\<close> and \<open>length\<close>.
\<close>

definition import_next_layer ::
  "(next_class \<Rightarrow> stream \<Rightarrow> error + ((pyval \<times> 'c \<times> nat) \<times> stream)) \<Rightarrow>
     string option \<Rightarrow> stream \<Rightarrow> error + ('c imported \<times> stream)" where
  "import_next_layer Protocol proto f =
     (let construct = (\<lambda>cls.
            and_then (Protocol cls f) (\<lambda>((info, protochain, length'), f').
              Inr (Imported3 info protochain length', f')))
      in if proto = Some ''IPv4'' then construct IPv4
         else if proto = Some ''IPv6'' then construct IPv6
         else if proto = Some ''AH'' then construct AH
         else if proto = Some ''TCP'' then construct TCP
         else if proto = Some ''UDP'' then construct UDP
         else (let (bs, f') = file_read None f;
                   data = (if bs = [] then PNone else PBytes bs)
               in Inr (Imported2 data None, f')))"

text \<open>
  The fallback as the specification words it, for comparison: a Raw record whose single
  \<open>payload\<close> field holds all remaining octets, and no further chain.
\<close>

definition spec_raw_fallback :: "stream \<Rightarrow> error + (string list imported \<times> stream)" where
  "spec_raw_fallback f = Inr (Imported2 (PDict [(''payload'', PBytes f)]) None, [])"

text \<open>A stand-in for the imported classes in the concrete runs; the fallback never calls it.\<close>

definition no_decoder :: "next_class \<Rightarrow> stream \<Rightarrow> error + ((pyval \<times> string list \<times> nat) \<times> stream)" where
  "no_decoder cls f = Inl NextLayerError"

section \<open>Python bytes and text operations used by the HTTP decoder\<close>

definition CRLF :: bytes where
  "CRLF = [CHR 0x0D, CHR 0x0A]"

text \<open>
  \<open>s.split(sep, 1)\<close> for a non-empty separator: the parts before and after the first
  occurrence of \<open>sep\<close>, or \<open>None\<close> when \<open>sep\<close> does not occur (the result list then
  has the single element \<open>s\<close>).
\<close>

fun split_once :: "bytes \<Rightarrow> bytes \<Rightarrow> (bytes \<times> bytes) option" where
  "split_once sep [] = None"
| "split_once sep (c # s) =
     (if prefix sep (c # s) then Some ([], drop (length sep) (c # s))
      else map_option (\<lambda>(a, b). (c # a, b)) (split_once sep s))"

lemma split_once_shorter:
  "split_once sep s = Some (a, b) \<Longrightarrow> sep \<noteq> [] \<Longrightarrow> length b < length s"
  by (induction s arbitrary: a) (auto split: if_splits)

text \<open>\<open>s.split(sep)\<close> for a non-empty separator: split at every occurrence, left to right.\<close>

function split_all :: "bytes \<Rightarrow> bytes \<Rightarrow> bytes list" where
  "split_all sep s =
     (if sep = [] then [s]
      else case split_once sep s of
             None \<Rightarrow> [s]
           | Some (a, b) \<Rightarrow> a # split_all sep b)"
  by pat_completeness auto
termination
  by (relation "measure (\<lambda>(sep, s). length s)") (auto dest: split_once_shorter)

declare split_all.simps [simp del]

text \<open>\<open>\s\<close> in a bytes pattern: the ASCII whitespace \<open>[ \t\n\r\f\v]\<close>.\<close>

definition is_space :: "char \<Rightarrow> bool" where
  "is_space c = (c \<in> set [CHR 0x20, CHR 0x09, CHR 0x0A, CHR 0x0D, CHR 0x0C, CHR 0x0B])"

text \<open>\<open>\d\<close> in a bytes pattern: \<open>[0-9]\<close>.\<close>

definition is_digit :: "char \<Rightarrow> bool" where
  "is_digit c = (c \<in> set ''0123456789'')"

text \<open>
  \<open>re.split(b'\s+', s, maxsplit)\<close>: split at the first \<open>maxsplit\<close> runs of whitespace;
  what follows the last split run is kept whole.
\<close>

fun re_split_ws :: "nat \<Rightarrow> bytes \<Rightarrow> bytes list" where
  "re_split_ws 0 s = [s]"
| "re_split_ws (Suc n) s =
     (let rest = dropWhile (\<lambda>c. \<not> is_space c) s
      in if rest = [] then [s]
         else takeWhile (\<lambda>c. \<not> is_space c) s # re_split_ws n (dropWhile is_space rest))"

text \<open>
  \<open>re.split(b'\s*:\s*', field, 1)\<close>: without a colon the single element \<open>field\<close>;
  otherwise the text before the first colon without the whitespace that ends it, and
  the text after that colon without the whitespace that starts it.
\<close>

definition re_split_colon :: "bytes \<Rightarrow> bytes list" where
  "re_split_colon field =
     (let rest = dropWhile (\<lambda>c. c \<noteq> CHR '':'') field
      in if rest = [] then [field]
         else [rev (dropWhile is_space (rev (takeWhile (\<lambda>c. c \<noteq> CHR '':'') field))),
               dropWhile is_space (tl rest)])"

text \<open>
  \<open>re.match\<close> anchors at the start of the text only, so each of the three patterns is
  a test on a prefix. \<open>_RE_VERSION\<close> also yields its group \<open>version\<close>.
\<close>

definition match_method :: "bytes \<Rightarrow> bool" where
  "match_method s =
     list_ex (\<lambda>m. prefix m s)
       [''GET'', ''HEAD'', ''POST'', ''PUT'', ''DELETE'', ''CONNECT'', ''OPTIONS'', ''TRACE'']"

definition match_version :: "bytes \<Rightarrow> bytes option" where
  "match_version s =
     (if prefix ''HTTP/'' s \<and> 8 \<le> length s \<and> is_digit (s ! 5) \<and> s ! 6 = CHR ''.'' \<and> is_digit (s ! 7)
      then Some (take 3 (drop 5 s)) else None)"

definition match_status :: "bytes \<Rightarrow> bool" where
  "match_status s = (3 \<le> length s \<and> list_all is_digit (take 3 s))"

text \<open>
  \<open>bytes.decode()\<close>: strict UTF-8. A text is kept in its UTF-8 encoding, so decoding
  checks that the octets are well-formed UTF-8 (no overlong form, no surrogate, nothing
  above U+10FFFF) and returns them. \<open>utf8_ok k lo hi\<close> reads on with \<open>k\<close> continuation
  octets still due, the next of them between \<open>lo\<close> and \<open>hi\<close>.
\<close>

fun utf8_ok :: "nat \<Rightarrow> nat \<Rightarrow> nat \<Rightarrow> bytes \<Rightarrow> bool" where
  "utf8_ok k lo hi [] = (k = 0)"
| "utf8_ok k lo hi (c # s) =
     (let n = (of_char c :: nat) in
      if k = 0 then
        (if n < 0x80 then utf8_ok 0 0x80 0xBF s
         else if 0xC2 \<le> n \<and> n \<le> 0xDF then utf8_ok 1 0x80 0xBF s
         else if n = 0xE0 then utf8_ok 2 0xA0 0xBF s
         else if (0xE1 \<le> n \<and> n \<le> 0xEC) \<or> n = 0xEE \<or> n = 0xEF then utf8_ok 2 0x80 0xBF s
         else if n = 0xED then utf8_ok 2 0x80 0x9F s
         else if n = 0xF0 then utf8_ok 3 0x90 0xBF s
         else if 0xF1 \<le> n \<and> n \<le> 0xF3 then utf8_ok 3 0x80 0xBF s
         else if n = 0xF4 then utf8_ok 3 0x80 0x8F s
         else False)
      else lo \<le> n \<and> n \<le> hi \<and> utf8_ok (k - 1) 0x80 0xBF s)"

definition decode :: "bytes \<Rightarrow> error + string" where
  "decode b = (if utf8_ok 0 0x80 0xBF b then Inr b else Inl UnicodeDecodeError)"

text \<open>
  The characters \<open>str.strip()\<close> removes, in UTF-8: U+0009 to U+000D, U+001C to U+0020,
  U+0085, U+00A0, U+1680, U+2000 to U+200A, U+2028, U+2029, U+202F, U+205F, U+3000.
\<close>

definition str_whitespace :: "string list" where
  "str_whitespace =
     map (\<lambda>c. [c]) [CHR 0x09, CHR 0x0A, CHR 0x0B, CHR 0x0C, CHR 0x0D,
                    CHR 0x1C, CHR 0x1D, CHR 0x1E, CHR 0x1F, CHR 0x20] @
     [[CHR 0xC2, CHR 0x85], [CHR 0xC2, CHR 0xA0], [CHR 0xE1, CHR 0x9A, CHR 0x80]] @
     map (\<lambda>c. [CHR 0xE2, CHR 0x80, c])
       [CHR 0x80, CHR 0x81, CHR 0x82, CHR 0x83, CHR 0x84, CHR 0x85, CHR 0x86, CHR 0x87,
        CHR 0x88, CHR 0x89, CHR 0x8A, CHR 0xA8, CHR 0xA9, CHR 0xAF] @
     [[CHR 0xE2, CHR 0x81, CHR 0x9F], [CHR 0xE3, CHR 0x80, CHR 0x80]]"

text \<open>Removing, from the front, every leading occurrence of one of the given texts.\<close>

function strip_prefixes :: "string list \<Rightarrow> string \<Rightarrow> string" where
  "strip_prefixes ws s =
     (case find (\<lambda>w. w \<noteq> [] \<and> prefix w s) ws of
        None \<Rightarrow> s
      | Some w \<Rightarrow> strip_prefixes ws (drop (length w) s))"
  by pat_completeness auto
termination
proof (relation "measure (\<lambda>(ws, s). length s)")
  show "wf (measure (\<lambda>(ws, s). length s))" by simp
next
  fix ws :: "string list" and s w :: string
  assume "find (\<lambda>w. w \<noteq> [] \<and> prefix w s) ws = Some w"
  then have "w \<noteq> []" and "prefix w s"
    by (auto simp: find_Some_iff)
  then have "s \<noteq> []" by auto
  with \<open>w \<noteq> []\<close> show "((ws, drop (length w) s), (ws, s)) \<in> measure (\<lambda>(ws, s). length s)"
    by simp
qed

declare strip_prefixes.simps [simp del]

text \<open>\<open>str.strip()\<close>: whitespace is removed from the front and from the end.\<close>

definition strip :: "string \<Rightarrow> string" where
  "strip s = rev (strip_prefixes (map rev str_whitespace) (rev (strip_prefixes str_whitespace s)))"

text \<open>
  \<open>s.replace(old, new)\<close>: the occurrences of \<open>old\<close> are replaced from left to right,
  without overlap; for an empty \<open>old\<close>, \<open>new\<close> is put before every character and at
  the end.
\<close>

function replace :: "string \<Rightarrow> string \<Rightarrow> string \<Rightarrow> string" where
  "replace old new s =
     (if old = [] then new @ concat (map (\<lambda>c. c # new) s)
      else case s of
             [] \<Rightarrow> []
           | c # cs \<Rightarrow>
               if prefix old s then new @ replace old new (drop (length old) s)
               else c # replace old new cs)"
  by pat_completeness auto
termination
  by (relation "measure (\<lambda>(old, new, s). length s)") auto

declare replace.simps [simp del]

section \<open>The HTTP/1.x decoder (jspcap/protocols/application/httpv1.py)\<close>

text \<open>Dictionary access: \<open>key in d\<close>/\<open>d[key]\<close>, and \<open>d[key] = value\<close>, which keeps the place of a key already present and appends a new one.\<close>

fun dict_set :: "(string \<times> pyval) list \<Rightarrow> string \<Rightarrow> pyval \<Rightarrow> (string \<times> pyval) list" where
  "dict_set [] k v = [(k, v)]"
| "dict_set ((k', v') # d) k v = (if k' = k then (k, v) # d else (k', v') # dict_set d k v)"

definition invalid_format :: error where
  "invalid_format = ProtocolError ''HTTP: invalid format''"

text \<open>
  The start line: the classification of \<open>_read_http_header\<close> and the dictionary it
  starts the header with. Python's \<open>int\<close> is a parameter: \<open>int_of s\<close> is \<open>None\<close> where
  \<open>int(s)\<close> raises ValueError.
\<close>

definition start_line ::
  "(string \<Rightarrow> int option) \<Rightarrow> bytes \<Rightarrow> bytes \<Rightarrow> bytes \<Rightarrow> error + (string \<times> (string \<times> pyval) list)" where
  "start_line int_of para1 para2 para3 =
     (let match1 = match_method para1;
          match2 = match_version para3;
          match3 = match_version para1;
          match4 = match_status para2
      in if match1 \<and> match2 \<noteq> None then
           and_then (decode para1) (\<lambda>method.
           and_then (decode para2) (\<lambda>target.
           and_then (decode (the match2)) (\<lambda>version.
             Inr (''request'',
                  [(''request'', PDict [(''method'', PStr method), (''target'', PStr target),
                                        (''version'', PStr version)])]))))
         else if match3 \<noteq> None \<and> match4 then
           and_then (decode (the match3)) (\<lambda>version.
           and_then (decode para2) (\<lambda>code.
           and_then (case int_of code of None \<Rightarrow> Inl ValueError | Some n \<Rightarrow> Inr n) (\<lambda>status.
           and_then (decode para3) (\<lambda>phrase.
             Inr (''response'',
                  [(''response'', PDict [(''version'', PStr version), (''status'', PInt status),
                                         (''phrase'', PStr phrase)])])))))
         else Inl invalid_format)"

text \<open>The key a header field is stored under (after \<open>item[0].decode()\<close>).\<close>

definition field_key :: "string \<Rightarrow> string" where
  "field_key k = replace ''response'' ''response_field'' (replace ''request'' ''request_field'' (strip k))"

text \<open>One round of the loop over the field lines; \<open>item\<close> is the result of the colon split.\<close>

definition add_field :: "(string \<times> pyval) list \<Rightarrow> bytes list \<Rightarrow> error + (string \<times> pyval) list" where
  "add_field header item =
     (case item of
        [] \<Rightarrow> Inl invalid_format
      | item0 # others \<Rightarrow>
          and_then (decode item0) (\<lambda>k.
            let key = field_key k in
            case others of
              [] \<Rightarrow> Inl invalid_format
            | item1 # _ \<Rightarrow>
                and_then (decode item1) (\<lambda>v.
                  let value = PStr (strip v) in
                  Inr (dict_set header key
                         (case map_of header key of
                            Some (PTuple vs) \<Rightarrow> PTuple (vs @ [value])
                          | Some old \<Rightarrow> PTuple [old, value]
                          | None \<Rightarrow> value)))))"

fun add_fields :: "(string \<times> pyval) list \<Rightarrow> bytes list list \<Rightarrow> error + (string \<times> pyval) list" where
  "add_fields header [] = Inr header"
| "add_fields header (item # items) = and_then (add_field header item) (\<lambda>h. add_fields h items)"

definition read_http_header ::
  "(string \<Rightarrow> int option) \<Rightarrow> bytes \<Rightarrow> error + ((string \<times> pyval) list \<times> string)" where
  "read_http_header int_of header =
     (case split_once CRLF header of
        None \<Rightarrow> Inl invalid_format
      | Some (startline, headerfield) \<Rightarrow>
          (case re_split_ws 2 startline of
             [para1, para2, para3] \<Rightarrow>
               (let fields = split_all CRLF headerfield;
                    lists = map re_split_colon fields
                in and_then (start_line int_of para1 para2 para3) (\<lambda>(receipt, header').
                   and_then (add_fields header' lists) (\<lambda>h. Inr (h, receipt))))
           | _ \<Rightarrow> Inl invalid_format))"

text \<open>
  \<open>_read_http_body\<close>. \<open>chardet.detect\<close> and Python's codecs are parameters:
  \<open>detect body\<close> is the reported encoding, if any, and \<open>codec cs body\<close> the decoded
  text, \<open>None\<close> where decoding raises UnicodeDecodeError.
\<close>

definition read_http_body ::
  "(bytes \<Rightarrow> string option) \<Rightarrow> (string \<Rightarrow> bytes \<Rightarrow> string option) \<Rightarrow> bytes \<Rightarrow> pyval" where
  "read_http_body detect codec body =
     (case detect body of
        None \<Rightarrow> PNone
      | Some charset \<Rightarrow>
          if charset = [] then PNone
          else (case codec charset body of
                  Some text \<Rightarrow> PStr text
                | None \<Rightarrow> PBytes body))"

text \<open>\<open>value or None\<close>.\<close>

definition or_None :: "pyval \<Rightarrow> pyval" where
  "or_None v = (if v \<in> {PNone, PStr [], PBytes [], PInt 0, PTuple [], PDict []} then PNone else v)"

definition read_http ::
  "(bytes \<Rightarrow> string option) \<Rightarrow> (string \<Rightarrow> bytes \<Rightarrow> string option) \<Rightarrow> (string \<Rightarrow> int option) \<Rightarrow>
     nat option \<Rightarrow> stream \<Rightarrow> (error + pyval) \<times> stream" where
  "read_http detect codec int_of length' f =
     (let (packet, f') = file_read length' f
      in (case split_once (CRLF @ CRLF) packet of
            None \<Rightarrow> Inl invalid_format
          | Some (header, body) \<Rightarrow>
              and_then (read_http_header int_of header) (\<lambda>(header_unpacked, http_receipt).
                let body_unpacked = or_None (read_http_body detect codec body)
                in Inr (PDict [(''receipt'', PStr http_receipt),
                               (''header'', PDict header_unpacked),
                               (''body'', body_unpacked)])),
          f'))"

text \<open>Scenario S4: an HTTP/1.1 request with two header fields and no body.\<close>

definition S4 :: bytes where
  "S4 = ''GET /index.html HTTP/1.1'' @ CRLF @ ''Host: example.com'' @ CRLF @ ''Accept: */*'' @ CRLF @ CRLF"

text \<open>Attribute access along a path of names, as in \<open>info.header.request.method\<close>.\<close>

fun attr_path :: "string list \<Rightarrow> pyval \<Rightarrow> pyval option" where
  "attr_path [] v = Some v"
| "attr_path (k # ks) v =
     (case v of
        PDict d \<Rightarrow> (case map_of d k of None \<Rightarrow> None | Some w \<Rightarrow> attr_path ks w)
      | _ \<Rightarrow> None)"

text \<open>
  Stand-ins for \<open>chardet.detect\<close>, the codecs and \<open>int\<close> in the concrete runs: a
  detector that finds nothing, one that always reports \<open>ascii\<close>, the ASCII codec, and
  \<open>int\<close> on texts of ASCII digits.
\<close>

definition no_detect :: "bytes \<Rightarrow> string option" where
  "no_detect body = None"

definition ascii_detect :: "bytes \<Rightarrow> string option" where
  "ascii_detect body = Some ''ascii''"

definition ascii_codec :: "string \<Rightarrow> bytes \<Rightarrow> string option" where
  "ascii_codec charset body =
     (if list_all (\<lambda>c. (of_char c :: nat) < 128) body then Some body else None)"

definition digits_int :: "string \<Rightarrow> int option" where
  "digits_int s =
     (if s \<noteq> [] \<and> list_all is_digit s
      then Some (foldl (\<lambda>n c. 10 * n + (int (of_char c) - 48)) 0 s) else None)"

text \<open>The header block of S4: what precedes the blank line.\<close>

definition S4_head :: bytes where
  "S4_head = ''GET /index.html HTTP/1.1'' @ CRLF @ ''Host: example.com'' @ CRLF @ ''Accept: */*''"

text \<open>The record the decoder returns for S4.\<close>

definition S4_info :: pyval where
  "S4_info =
     PDict [(''receipt'', PStr ''request''),
            (''header'',
             PDict [(''request'', PDict [(''method'', PStr ''GET''),
                                         (''target'', PStr ''/index.html''),
                                         (''version'', PStr ''1.1'')]),
                    (''Host'', PStr ''example.com''),
                    (''Accept'', PStr ''*/*'')]),
            (''body'', PNone)]"

text \<open>
  Further payloads: S6 (a start line of neither form), a request without the blank
  line, a request whose target is not UTF-8, a request with a field line that is not
  UTF-8 and has no colon, and a request with a field line without a colon.
\<close>

definition S6 :: bytes where
  "S6 = ''FOO BAR BAZ'' @ CRLF @ CRLF"

definition no_separator :: bytes where
  "no_separator = ''GET / HTTP/1.1'' @ CRLF @ ''Host: example.com'' @ CRLF"




text \<open>A payload whose start line has neither form, with a header field; and the header block of \<open>no_colon\<close>.\<close>

definition neither_form :: bytes where
  "neither_form = ''FOO BAR BAZ'' @ CRLF @ ''Host: example.com'' @ CRLF @ CRLF"



section \<open>Facts about the ARP decoder\<close>

lemma and_then_Inr: "and_then m k = Inr v \<longleftrightarrow> (\<exists>a. m = Inr a \<and> k a = Inr v)"
  by (cases m) (simp_all add: and_then_def)

lemma and_then_InrE:
  assumes "and_then m k = Inr v"
  obtains a where "m = Inr a" "k a = Inr v"
  using assms by (auto simp: and_then_Inr)

lemma read_fileng_Inr:
  "read_fileng n f = Inr (bs, f') \<longleftrightarrow> n \<le> length f \<and> bs = take n f \<and> f' = drop n f"
  by (auto simp: read_fileng_def)

lemma read_unpack_InrD:
  assumes "read_unpack n f = Inr (v, f')"
  shows "v = wire_field 0 n f \<and> f' = drop n f"
  using assms by (auto simp: read_unpack_def and_then_Inr read_fileng_Inr wire_field_def)

lemma wire_field_drop: "wire_field i m (drop n f) = wire_field (n + i) m f"
  by (simp add: wire_field_def add.commute)

lemma read_arp_Inr:
  assumes "read_arp HRD ETHERTYPE OPER n f = Inr r"
  shows "\<exists>shwa spta thwa tpta f6 f7 f8 f9.
    read_addr_resolve (wire_field 4 1 f) (wire_field 0 2 f) (drop 8 f) = Inr (shwa, f6) \<and>
    read_proto_resolve (wire_field 5 1 f) (wire_field 2 2 f) f6 = Inr (spta, f7) \<and>
    read_addr_resolve (wire_field 4 1 f) (wire_field 0 2 f) f7 = Inr (thwa, f8) \<and>
    read_proto_resolve (wire_field 5 1 f) (wire_field 2 2 f) f8 = Inr (tpta, f9) \<and>
    r = \<lparr>arp = \<lparr>htype = HRD (wire_field 0 2 f),
                 ptype = (if match_ethernet (HRD (wire_field 0 2 f)) then Registered (ETHERTYPE (wire_field 2 2 f))
                     else Text (''Unknown ['' @ str_of_nat (wire_field 2 2 f) @ '']'')),
                 hlen = wire_field 4 1 f, plen = wire_field 5 1 f,
                 oper = OPER (wire_field 6 2 f), sha = shwa, spa = spta, tha = thwa, tpa = tpta,
                 len = 8 + wire_field 4 1 f * 2 + wire_field 5 1 f * 2\<rparr>,
          acnm = fst (variant_names (wire_field 6 2 f)), name = snd (variant_names (wire_field 6 2 f)),
          payload_length = n - int (8 + wire_field 4 1 f * 2 + wire_field 5 1 f * 2), stream_left = f9\<rparr>"
proof -
  have "\<exists>hwty f1 ptty f2 hlen' f3 plen' f4 oper' f5 shwa f6 spta f7 thwa f8 tpta f9.
      read_unpack 2 f = Inr (hwty, f1) \<and> read_unpack 2 f1 = Inr (ptty, f2) \<and>
      read_unpack 1 f2 = Inr (hlen', f3) \<and> read_unpack 1 f3 = Inr (plen', f4) \<and>
      read_unpack 2 f4 = Inr (oper', f5) \<and>
      read_addr_resolve hlen' hwty f5 = Inr (shwa, f6) \<and>
      read_proto_resolve plen' ptty f6 = Inr (spta, f7) \<and>
      read_addr_resolve hlen' hwty f7 = Inr (thwa, f8) \<and>
      read_proto_resolve plen' ptty f8 = Inr (tpta, f9) \<and>
      r = \<lparr>arp = \<lparr>htype = HRD hwty,
                 ptype = (if match_ethernet (HRD hwty) then Registered (ETHERTYPE ptty)
                     else Text (''Unknown ['' @ str_of_nat ptty @ '']'')),
                 hlen = hlen', plen = plen',
                 oper = OPER oper', sha = shwa, spa = spta, tha = thwa, tpa = tpta,
                 len = 8 + hlen' * 2 + plen' * 2\<rparr>,
          acnm = fst (variant_names oper'), name = snd (variant_names oper'),
          payload_length = n - int (8 + hlen' * 2 + plen' * 2), stream_left = f9\<rparr>"
    using assms unfolding read_arp_def
    apply -
    apply ((erule and_then_InrE, simp only: split_paired_all prod.case)+)
    apply (fold variant_names_def)
    apply (simp add: Let_def case_prod_beta split del: if_split)
    done
  then obtain hwty f1 ptty f2 hlen' f3 plen' f4 oper' f5 shwa f6 spta f7 thwa f8 tpta f9
    where steps:
      "read_unpack 2 f = Inr (hwty, f1)" "read_unpack 2 f1 = Inr (ptty, f2)"
      "read_unpack 1 f2 = Inr (hlen', f3)" "read_unpack 1 f3 = Inr (plen', f4)"
      "read_unpack 2 f4 = Inr (oper', f5)"
      "read_addr_resolve hlen' hwty f5 = Inr (shwa, f6)"
      "read_proto_resolve plen' ptty f6 = Inr (spta, f7)"
      "read_addr_resolve hlen' hwty f7 = Inr (thwa, f8)"
      "read_proto_resolve plen' ptty f8 = Inr (tpta, f9)"
    and r: "r = \<lparr>arp = \<lparr>htype = HRD hwty,
                 ptype = (if match_ethernet (HRD hwty) then Registered (ETHERTYPE ptty)
                     else Text (''Unknown ['' @ str_of_nat ptty @ '']'')),
                 hlen = hlen', plen = plen',
                 oper = OPER oper', sha = shwa, spa = spta, tha = thwa, tpa = tpta,
                 len = 8 + hlen' * 2 + plen' * 2\<rparr>,
          acnm = fst (variant_names oper'), name = snd (variant_names oper'),
          payload_length = n - int (8 + hlen' * 2 + plen' * 2), stream_left = f9\<rparr>"
    by blast
  from steps(1) have 1: "hwty = wire_field 0 2 f" "f1 = drop 2 f"
    using read_unpack_InrD by blast+
  from steps(2) have 2: "ptty = wire_field 2 2 f" "f2 = drop 4 f"
    using read_unpack_InrD[of 2 f1 ptty f2] by (simp_all add: 1 wire_field_drop)
  from steps(3) have 3: "hlen' = wire_field 4 1 f" "f3 = drop 5 f"
    using read_unpack_InrD[of 1 f2 hlen' f3] by (simp_all add: 2 wire_field_drop)
  from steps(4) have 4: "plen' = wire_field 5 1 f" "f4 = drop 6 f"
    using read_unpack_InrD[of 1 f3 plen' f4] by (simp_all add: 3 wire_field_drop)
  from steps(5) have 5: "oper' = wire_field 6 2 f" "f5 = drop 8 f"
    using read_unpack_InrD[of 2 f4 oper' f5] by (simp_all add: 4 wire_field_drop)
  show ?thesis
    using steps(6-9) r unfolding 1 2 3 4 5 by blast
qed


lemmas arp_eval =
  read_arp_def read_unpack_def read_fileng_def and_then_def unpack_be_def
  read_addr_resolve_def read_proto_resolve_def hex_def hex_of_byte_def hex_digit_def
  match_ethernet_def lower_char_def HRD_sample_def

text \<open>
  C9. For every successfully decoded ARP packet the emitted \<open>len\<close> field is
  \<open>8 + 2 * hlen + 2 * plen\<close>, with \<open>hlen\<close> and \<open>plen\<close> the lengths read from octets
  4 and 5 of the header; the S1 packet decodes with \<open>hlen = 6\<close>, \<open>plen = 4\<close> and
  \<open>len = 28\<close>, whatever the registries are.
\<close>

theorem arp_len_field:
  "(read_arp HRD ETHERTYPE OPER n f = Inr r \<longrightarrow>
      len (arp r) = 8 + 2 * hlen (arp r) + 2 * plen (arp r) \<and>
      hlen (arp r) = wire_field 4 1 f \<and> plen (arp r) = wire_field 5 1 f) \<and>
   (\<exists>r1. read_arp HRD ETHERTYPE OPER n S1 = Inr r1 \<and>
      hlen (arp r1) = 6 \<and> plen (arp r1) = 4 \<and> len (arp r1) = 28)"
proof (intro conjI impI)
  assume "read_arp HRD ETHERTYPE OPER n f = Inr r"
  from read_arp_Inr [OF this]
  show "len (arp r) = 8 + 2 * hlen (arp r) + 2 * plen (arp r)"
    and "hlen (arp r) = wire_field 4 1 f" and "plen (arp r) = wire_field 5 1 f"
    by auto
next
  show "\<exists>r1. read_arp HRD ETHERTYPE OPER n S1 = Inr r1 \<and>
      hlen (arp r1) = 6 \<and> plen (arp r1) = 4 \<and> len (arp r1) = 28"
    by (simp add: S1_def arp_eval Let_def)
qed

theorem arp_len_field_witness:
  "read_arp HRD_sample id id 28 S1 =
     Inr \<lparr>arp = \<lparr>htype = ''Ethernet'', ptype = Registered 2048, hlen = 6, plen = 4, oper = 1,
                  sha = HexAddr ''aa:bb:cc:dd:ee:ff'',
                  spa = IPv4Address [CHR 0x0a, CHR 0x00, CHR 0x00, CHR 0x01],
                  tha = HexAddr ''00:00:00:00:00:00'',
                  tpa = IPv4Address [CHR 0x0a, CHR 0x00, CHR 0x00, CHR 0x02],
                  len = 28\<rparr>,
           acnm = ''ARP'', name = ''Address Resolution Protocol'',
           payload_length = 0, stream_left = []\<rparr> \<and>
   28 = 8 + 2 * wire_field 4 1 S1 + 2 * wire_field 5 1 S1"
proof -
  have run: "read_arp HRD_sample id id 28 S1 =
     Inr \<lparr>arp = \<lparr>htype = ''Ethernet'', ptype = Registered 2048, hlen = 6, plen = 4, oper = 1,
                  sha = HexAddr ''aa:bb:cc:dd:ee:ff'',
                  spa = IPv4Address [CHR 0x0a, CHR 0x00, CHR 0x00, CHR 0x01],
                  tha = HexAddr ''00:00:00:00:00:00'',
                  tpa = IPv4Address [CHR 0x0a, CHR 0x00, CHR 0x00, CHR 0x02],
                  len = 28\<rparr>,
           acnm = ''ARP'', name = ''Address Resolution Protocol'',
           payload_length = 0, stream_left = []\<rparr>"
    by (simp add: S1_def arp_eval)
  from arp_len_field [THEN conjunct1, THEN mp, OF run] run show ?thesis
    by simp
qed




text \<open>
  C8. The \<open>htype\<close> entry is the registry name of the hardware type. When that name does
  not match \<open>Ethernet\<close>, the \<open>ptype\<close> entry is the text \<open>Unknown [<value>]\<close> with the
  decimal protocol type, whatever the EtherType registry holds for that value; when it
  matches, \<open>ptype\<close> is the EtherType registry's entry.
\<close>

theorem arp_ptype_field:
  "read_arp HRD ETHERTYPE OPER n f = Inr r \<longrightarrow>
     htype (arp r) = HRD (wire_field 0 2 f) \<and>
     (\<not> match_ethernet (htype (arp r)) \<longrightarrow>
        ptype (arp r) = Text (''Unknown ['' @ str_of_nat (wire_field 2 2 f) @ '']'')) \<and>
     (match_ethernet (htype (arp r)) \<longrightarrow>
        ptype (arp r) = Registered (ETHERTYPE (wire_field 2 2 f)))"
proof
  assume "read_arp HRD ETHERTYPE OPER n f = Inr r"
  from read_arp_Inr [OF this]
  show "htype (arp r) = HRD (wire_field 0 2 f) \<and>
     (\<not> match_ethernet (htype (arp r)) \<longrightarrow>
        ptype (arp r) = Text (''Unknown ['' @ str_of_nat (wire_field 2 2 f) @ '']'')) \<and>
     (match_ethernet (htype (arp r)) \<longrightarrow>
        ptype (arp r) = Registered (ETHERTYPE (wire_field 2 2 f)))"
    by auto
qed

theorem arp_ptype_field_witness:
  "read_arp HRD_sample id id 20 FR1 =
     Inr \<lparr>arp = \<lparr>htype = ''Frame Relay'', ptype = Text ''Unknown [2048]'', hlen = 2, plen = 4,
                  oper = 1, sha = RawAddr [CHR 0x04, CHR 0x01],
                  spa = IPv4Address [CHR 0x0a, CHR 0x00, CHR 0x00, CHR 0x01],
                  tha = RawAddr [CHR 0x00, CHR 0x00],
                  tpa = IPv4Address [CHR 0x0a, CHR 0x00, CHR 0x00, CHR 0x02],
                  len = 20\<rparr>,
           acnm = ''ARP'', name = ''Address Resolution Protocol'',
           payload_length = 0, stream_left = []\<rparr> \<and>
   \<not> match_ethernet ''Frame Relay'' \<and> match_ethernet ''Ethernet'' \<and>
   str_of_nat (wire_field 2 2 FR1) = ''2048'' \<and>
   ptype (arp (projr (read_arp HRD_sample id id 28 S1))) = Registered 2048"
proof -
  have run: "read_arp HRD_sample id id 20 FR1 =
     Inr \<lparr>arp = \<lparr>htype = ''Frame Relay'', ptype = Text ''Unknown [2048]'', hlen = 2, plen = 4,
                  oper = 1, sha = RawAddr [CHR 0x04, CHR 0x01],
                  spa = IPv4Address [CHR 0x0a, CHR 0x00, CHR 0x00, CHR 0x01],
                  tha = RawAddr [CHR 0x00, CHR 0x00],
                  tpa = IPv4Address [CHR 0x0a, CHR 0x00, CHR 0x00, CHR 0x02],
                  len = 20\<rparr>,
           acnm = ''ARP'', name = ''Address Resolution Protocol'',
           payload_length = 0, stream_left = []\<rparr>"
    by (simp add: FR1_def arp_eval str_of_nat.simps digit_char_def)
  have m: "\<not> match_ethernet ''Frame Relay''" "match_ethernet ''Ethernet''"
    by (simp_all add: match_ethernet_def lower_char_def)
  have w: "str_of_nat (wire_field 2 2 FR1) = ''2048''"
    by (simp add: FR1_def wire_field_def unpack_be_def str_of_nat.simps digit_char_def)
  have s1: "ptype (arp (projr (read_arp HRD_sample id id 28 S1))) = Registered 2048"
    by (simp add: S1_def arp_eval)
  from arp_ptype_field [THEN mp, OF run] run m w s1 show ?thesis
    by simp
qed


lemma wrap2_hex: "wrap2 (hex bs) = map hex_of_byte bs"
  by (induction bs) (simp_all add: hex_def hex_of_byte_def)

lemma read_addr_resolve_Inr:
  "read_addr_resolve l h f = Inr (a, f') \<longleftrightarrow>
     (if h = 1
      then 6 \<le> length f \<and> a = HexAddr (join '':'' (map hex_of_byte (take 6 f))) \<and> f' = drop 6 f
      else l \<le> length f \<and> a = RawAddr (take l f) \<and> f' = drop l f)"
  by (auto simp: read_addr_resolve_def and_then_Inr read_fileng_Inr wrap2_hex)

lemma read_proto_resolve_Inr:
  "read_proto_resolve l p f = Inr (a, f') \<longleftrightarrow>
     (if p = 0x0800 then 4 \<le> length f \<and> a = IPv4Address (take 4 f) \<and> f' = drop 4 f
      else if p = 0x86dd then 16 \<le> length f \<and> a = IPv6Address (take 16 f) \<and> f' = drop 16 f
      else l \<le> length f \<and> a = RawAddr (take l f) \<and> f' = drop l f)"
  by (auto simp: read_proto_resolve_def and_then_Inr read_fileng_Inr)

text \<open>
  C2, as stated, fails. With \<open>htype = 1\<close> and \<open>hlen = 8\<close> the decoder reads six octets
  and renders them as colon-joined hexadecimal, leaving two octets unread, where the
  stated rule reads eight octets and keeps them raw; with \<open>ptype = 0x0800\<close> and
  \<open>plen = 6\<close> it reads four octets as an IPv4 address where the stated rule keeps six
  raw octets.
\<close>

theorem arp_address_claim_counterexample:
  "read_addr_resolve 8 1 HW8 = Inr (HexAddr ''11:12:13:14:15:16'', [CHR 0x17, CHR 0x18]) \<and>
   spec_addr_resolve 8 1 HW8 = Inr (RawAddr HW8, []) \<and>
   read_proto_resolve 6 0x0800 PA6 =
     Inr (IPv4Address [CHR 0x0a, CHR 0x00, CHR 0x00, CHR 0x01], [CHR 0x00, CHR 0x02]) \<and>
   spec_proto_resolve 6 0x0800 PA6 = Inr (RawAddr PA6, [])"
  by (simp add: HW8_def PA6_def spec_addr_resolve_def spec_proto_resolve_def arp_eval)

text \<open>
  C2, amended. The rendering is chosen by the type alone, as the docstrings of the two
  helpers say. A hardware address is six octets rendered as colon-joined lowercase
  hexadecimal exactly when \<open>htype = 1\<close>, whatever \<open>hlen\<close> is, and \<open>hlen\<close> raw octets
  otherwise. A protocol address is an IPv4 address of four octets exactly when
  \<open>ptype = 0x0800\<close>, an IPv6 address of sixteen octets exactly when \<open>ptype = 0x86dd\<close>,
  whatever \<open>plen\<close> is, and \<open>plen\<close> raw octets otherwise. In a decoded packet
  \<open>sha\<close>, \<open>spa\<close>, \<open>tha\<close> and \<open>tpa\<close> are read this way, one after the other, from octet 8.
\<close>

theorem arp_address_rendering:
  "(read_addr_resolve l h f = Inr (a, f') \<longleftrightarrow>
     (if h = 1
      then 6 \<le> length f \<and> a = HexAddr (join '':'' (map hex_of_byte (take 6 f))) \<and> f' = drop 6 f
      else l \<le> length f \<and> a = RawAddr (take l f) \<and> f' = drop l f)) \<and>
   (read_proto_resolve l p f = Inr (b, g) \<longleftrightarrow>
     (if p = 0x0800 then 4 \<le> length f \<and> b = IPv4Address (take 4 f) \<and> g = drop 4 f
      else if p = 0x86dd then 16 \<le> length f \<and> b = IPv6Address (take 16 f) \<and> g = drop 16 f
      else l \<le> length f \<and> b = RawAddr (take l f) \<and> g = drop l f)) \<and>
   (read_arp HRD ETHERTYPE OPER n pkt = Inr r \<longrightarrow>
     (\<exists>f6 f7 f8.
        read_addr_resolve (hlen (arp r)) (wire_field 0 2 pkt) (drop 8 pkt) = Inr (sha (arp r), f6) \<and>
        read_proto_resolve (plen (arp r)) (wire_field 2 2 pkt) f6 = Inr (spa (arp r), f7) \<and>
        read_addr_resolve (hlen (arp r)) (wire_field 0 2 pkt) f7 = Inr (tha (arp r), f8) \<and>
        read_proto_resolve (plen (arp r)) (wire_field 2 2 pkt) f8 = Inr (tpa (arp r), stream_left r)))"
proof (intro conjI impI)
  show "read_addr_resolve l h f = Inr (a, f') \<longleftrightarrow>
     (if h = 1
      then 6 \<le> length f \<and> a = HexAddr (join '':'' (map hex_of_byte (take 6 f))) \<and> f' = drop 6 f
      else l \<le> length f \<and> a = RawAddr (take l f) \<and> f' = drop l f)"
    by (rule read_addr_resolve_Inr)
  show "read_proto_resolve l p f = Inr (b, g) \<longleftrightarrow>
     (if p = 0x0800 then 4 \<le> length f \<and> b = IPv4Address (take 4 f) \<and> g = drop 4 f
      else if p = 0x86dd then 16 \<le> length f \<and> b = IPv6Address (take 16 f) \<and> g = drop 16 f
      else l \<le> length f \<and> b = RawAddr (take l f) \<and> g = drop l f)"
    by (rule read_proto_resolve_Inr)
  assume "read_arp HRD ETHERTYPE OPER n pkt = Inr r"
  from read_arp_Inr [OF this]
  obtain shwa spta thwa tpta f6 f7 f8 f9 where
    a: "read_addr_resolve (wire_field 4 1 pkt) (wire_field 0 2 pkt) (drop 8 pkt) = Inr (shwa, f6)"
       "read_proto_resolve (wire_field 5 1 pkt) (wire_field 2 2 pkt) f6 = Inr (spta, f7)"
       "read_addr_resolve (wire_field 4 1 pkt) (wire_field 0 2 pkt) f7 = Inr (thwa, f8)"
       "read_proto_resolve (wire_field 5 1 pkt) (wire_field 2 2 pkt) f8 = Inr (tpta, f9)"
    and r: "hlen (arp r) = wire_field 4 1 pkt" "plen (arp r) = wire_field 5 1 pkt"
       "sha (arp r) = shwa" "spa (arp r) = spta" "tha (arp r) = thwa" "tpa (arp r) = tpta"
       "stream_left r = f9"
    by auto
  show "\<exists>f6 f7 f8.
        read_addr_resolve (hlen (arp r)) (wire_field 0 2 pkt) (drop 8 pkt) = Inr (sha (arp r), f6) \<and>
        read_proto_resolve (plen (arp r)) (wire_field 2 2 pkt) f6 = Inr (spa (arp r), f7) \<and>
        read_addr_resolve (hlen (arp r)) (wire_field 0 2 pkt) f7 = Inr (tha (arp r), f8) \<and>
        read_proto_resolve (plen (arp r)) (wire_field 2 2 pkt) f8 = Inr (tpa (arp r), stream_left r)"
    unfolding r using a by blast
qed

theorem arp_address_rendering_witness:
  "read_arp HRD_sample id id 32 ARP_hlen8 =
     Inr \<lparr>arp = \<lparr>htype = ''Ethernet'', ptype = Registered 2048, hlen = 8, plen = 4, oper = 1,
                  sha = HexAddr ''11:12:13:14:15:16'',
                  spa = IPv4Address [CHR 0x17, CHR 0x18, CHR 0x0a, CHR 0x00],
                  tha = HexAddr ''00:01:21:22:23:24'',
                  tpa = IPv4Address [CHR 0x25, CHR 0x26, CHR 0x27, CHR 0x28],
                  len = 32\<rparr>,
           acnm = ''ARP'', name = ''Address Resolution Protocol'',
           payload_length = 0, stream_left = [CHR 0x0a, CHR 0x00, CHR 0x00, CHR 0x02]\<rparr> \<and>
   read_addr_resolve 8 (wire_field 0 2 ARP_hlen8) (drop 8 ARP_hlen8) =
     Inr (HexAddr ''11:12:13:14:15:16'', drop 14 ARP_hlen8)"
proof -
  have run: "read_arp HRD_sample id id 32 ARP_hlen8 =
     Inr \<lparr>arp = \<lparr>htype = ''Ethernet'', ptype = Registered 2048, hlen = 8, plen = 4, oper = 1,
                  sha = HexAddr ''11:12:13:14:15:16'',
                  spa = IPv4Address [CHR 0x17, CHR 0x18, CHR 0x0a, CHR 0x00],
                  tha = HexAddr ''00:01:21:22:23:24'',
                  tpa = IPv4Address [CHR 0x25, CHR 0x26, CHR 0x27, CHR 0x28],
                  len = 32\<rparr>,
           acnm = ''ARP'', name = ''Address Resolution Protocol'',
           payload_length = 0, stream_left = [CHR 0x0a, CHR 0x00, CHR 0x00, CHR 0x02]\<rparr>"
    by (simp add: ARP_hlen8_def HW8_def arp_eval)
  from arp_address_rendering [THEN conjunct2, THEN conjunct2, THEN mp, OF run]
  obtain f6 where
    "read_addr_resolve 8 (wire_field 0 2 ARP_hlen8) (drop 8 ARP_hlen8) =
       Inr (HexAddr ''11:12:13:14:15:16'', f6)"
    by auto
  moreover from this have "f6 = drop 14 ARP_hlen8"
    by (simp add: read_addr_resolve_Inr split: if_splits)
  ultimately show ?thesis using run by simp
qed


section \<open>Facts about the next-layer import\<close>

text \<open>
  C5, as stated, fails. For an unknown protocol and an exhausted stream the import
  returns the pair \<open>(None, None)\<close>: there is no Raw record and no \<open>payload\<close> field.
\<close>

theorem import_next_layer_claim_counterexample:
  "import_next_layer no_decoder (Some ''ICMP'') [] = Inr (Imported2 PNone None, []) \<and>
   spec_raw_fallback [] = Inr (Imported2 (PDict [(''payload'', PBytes [])]) None, []) \<and>
   import_next_layer no_decoder (Some ''ICMP'') [] \<noteq> spec_raw_fallback []"
  by (simp add: import_next_layer_def spec_raw_fallback_def file_read_def)

text \<open>
  C5, amended. For every protocol identifier other than IPv4, IPv6, AH, TCP and UDP
  (a missing registry entry, \<open>None\<close>, included) the import does not fail: it reads
  all remaining octets and returns them as they are, or \<open>None\<close> when there are none,
  together with no protocol chain; nothing is left on the stream.
\<close>

theorem import_next_layer_fallback:
  "proto \<notin> {Some ''IPv4'', Some ''IPv6'', Some ''AH'', Some ''TCP'', Some ''UDP''} \<longrightarrow>
     import_next_layer Protocol proto f =
       Inr (Imported2 (if f = [] then PNone else PBytes f) None, [])"
  by (simp add: import_next_layer_def file_read_def)

theorem import_next_layer_fallback_witness:
  "import_next_layer no_decoder None [CHR 0x01, CHR 0x02, CHR 0x03] =
     Inr (Imported2 (PBytes [CHR 0x01, CHR 0x02, CHR 0x03]) None, []) \<and>
   import_next_layer no_decoder (Some ''ICMP'') [CHR 0x01, CHR 0x02, CHR 0x03] =
     Inr (Imported2 (PBytes [CHR 0x01, CHR 0x02, CHR 0x03]) None, [])"
proof -
  have a: "None \<notin> {Some ''IPv4'', Some ''IPv6'', Some ''AH'', Some ''TCP'', Some ''UDP''}"
    by simp
  have b: "Some ''ICMP'' \<notin> {Some ''IPv4'', Some ''IPv6'', Some ''AH'', Some ''TCP'', Some ''UDP''}"
    by simp
  from import_next_layer_fallback [THEN mp, OF a, of no_decoder "[CHR 0x01, CHR 0x02, CHR 0x03]"]
       import_next_layer_fallback [THEN mp, OF b, of no_decoder "[CHR 0x01, CHR 0x02, CHR 0x03]"]
  show ?thesis by simp
qed


section \<open>Facts about the HTTP/1.x decoder\<close>






lemma replace_absent:
  "old \<noteq> [] \<Longrightarrow> \<not> contains old s \<Longrightarrow> replace old new s = s"
proof (induction s)
  case Nil
  then show ?case by (simp add: replace.simps)
next
  case (Cons c s)
  then show ?case by (subst replace.simps) simp
qed

lemma replace_length_ge:
  "old \<noteq> [] \<Longrightarrow> length old \<le> length new \<Longrightarrow> length s \<le> length (replace old new s)"
proof (induction old new s rule: replace.induct)
  case (1 old new s)
  show ?case
  proof (cases s)
    case Nil
    then show ?thesis by simp
  next
    case (Cons c cs)
    show ?thesis
    proof (cases "prefix old s")
      case True
      then have "length old \<le> length s" by (rule prefix_length_le)
      moreover have "length (drop (length old) s) \<le> length (replace old new (drop (length old) s))"
        using 1 Cons True by simp
      ultimately show ?thesis
        using 1(3,4) Cons True by (subst replace.simps) simp
    next
      case False
      have "length cs \<le> length (replace old new cs)"
        using 1 Cons False by simp
      then show ?thesis
        using 1(3) Cons False by (subst replace.simps) simp
    qed
  qed
qed

lemma replace_length_grows:
  "old \<noteq> [] \<Longrightarrow> length old \<le> length new \<Longrightarrow> contains old s \<Longrightarrow>
     length s + (length new - length old) \<le> length (replace old new s)"
proof (induction s)
  case Nil
  then show ?case by simp
next
  case (Cons c cs)
  show ?case
  proof (cases "prefix old (c # cs)")
    case True
    then have "length old \<le> length (c # cs)" by (rule prefix_length_le)
    moreover have "length (drop (length old) (c # cs)) \<le> length (replace old new (drop (length old) (c # cs)))"
      using Cons.prems by (intro replace_length_ge)
    ultimately show ?thesis
      using Cons.prems True by (subst replace.simps) simp
  next
    case False
    with Cons.prems have "contains old cs" by simp
    with Cons have "length cs + (length new - length old) \<le> length (replace old new cs)" by simp
    then show ?thesis
      using Cons.prems False by (subst replace.simps) simp
  qed
qed

lemma replace_changes_iff:
  assumes "old \<noteq> []" "length old < length new"
  shows "replace old new s = s \<longleftrightarrow> \<not> contains old s"
proof
  assume eq: "replace old new s = s"
  show "\<not> contains old s"
  proof
    assume "contains old s"
    with assms have "length s + (length new - length old) \<le> length (replace old new s)"
      by (intro replace_length_grows) auto
    with eq assms(2) show False by simp
  qed
next
  assume "\<not> contains old s"
  with assms(1) show "replace old new s = s" by (rule replace_absent)
qed

lemma field_key_unchanged_iff:
  "field_key k = strip k \<longleftrightarrow> \<not> contains ''request'' (strip k) \<and> \<not> contains ''response'' (strip k)"
proof (cases "contains ''request'' (strip k)")
  case True
  then have "length (strip k) + (length ''request_field'' - length ''request'')
      \<le> length (replace ''request'' ''request_field'' (strip k))"
    by (intro replace_length_grows) auto
  moreover have "length (replace ''request'' ''request_field'' (strip k)) \<le> length (field_key k)"
    unfolding field_key_def by (intro replace_length_ge) auto
  ultimately have "length (strip k) < length (field_key k)" by simp
  with True show ?thesis by auto
next
  case False
  then have "replace ''request'' ''request_field'' (strip k) = strip k"
    by (intro replace_absent) auto
  then have "field_key k = replace ''response'' ''response_field'' (strip k)"
    by (simp add: field_key_def)
  with False show ?thesis
    by (simp add: replace_changes_iff)
qed







lemma add_field_short_decodable:
  "length item < 2 \<Longrightarrow> \<forall>b\<in>set item. utf8_ok 0 0x80 0xBF b \<Longrightarrow> add_field h item = Inl invalid_format"
  by (cases item; cases "tl item") (auto simp: add_field_def and_then_def decode_def Let_def)







lemmas http_eval =
  read_http_def read_http_header_def read_http_body_def or_None_def file_read_def
  start_line_def add_field_def field_key_def strip_def str_whitespace_def
  re_split_colon_def match_method_def match_version_def match_status_def
  decode_def is_space_def is_digit_def CRLF_def and_then_def invalid_format_def
  split_all.simps strip_prefixes.simps replace.simps numeral_2_eq_2 Let_def

lemma S4_packet: "split_once (CRLF @ CRLF) S4 = Some (S4_head, [])"
  by (simp add: S4_def S4_head_def CRLF_def)

lemma S4_header:
  "read_http_header int_of S4_head =
     Inr ([(''request'', PDict [(''method'', PStr ''GET''), (''target'', PStr ''/index.html''),
                                (''version'', PStr ''1.1'')]),
           (''Host'', PStr ''example.com''), (''Accept'', PStr ''*/*'')], ''request'')"
  by (simp add: S4_head_def http_eval)

lemma empty_body:
  assumes "\<forall>charset text. codec charset [] = Some text \<longrightarrow> text = []"
  shows "or_None (read_http_body detect codec []) = PNone"
proof (cases "detect []")
  case None
  then show ?thesis by (simp add: read_http_body_def or_None_def)
next
  case (Some charset)
  note found = this
  show ?thesis
  proof (cases "codec charset []")
    case None
    with found show ?thesis by (simp add: read_http_body_def or_None_def)
  next
    case (Some t)
    note decoded = this
    with assms have "t = []" by blast
    with decoded found show ?thesis
      by (simp add: read_http_body_def or_None_def)
  qed
qed

text \<open>
  C1, as stated, fails. The record for S4 has the three entries \<open>receipt\<close>,
  \<open>header\<close> and \<open>body\<close>; the classified start line and the header fields are
  entries of \<open>header\<close>, so \<open>info.request.method\<close>, \<open>info.Host\<close> and
  \<open>info.Accept\<close> do not exist.
\<close>

theorem http_request_record_claim_counterexample:
  "fst (read_http no_detect ascii_codec digits_int None S4) = Inr S4_info \<and>
   attr_path [''request'', ''method''] S4_info = None \<and>
   attr_path [''request'', ''target''] S4_info = None \<and>
   attr_path [''request'', ''version''] S4_info = None \<and>
   attr_path [''Host''] S4_info = None \<and>
   attr_path [''Accept''] S4_info = None"
proof -
  have "fst (read_http no_detect ascii_codec digits_int None S4) = Inr S4_info"
    by (simp add: read_http_def file_read_def S4_packet S4_header and_then_def
        read_http_body_def no_detect_def or_None_def S4_info_def)
  moreover have "attr_path [''request'', ''method''] S4_info = None"
    "attr_path [''request'', ''target''] S4_info = None"
    "attr_path [''request'', ''version''] S4_info = None"
    "attr_path [''Host''] S4_info = None"
    "attr_path [''Accept''] S4_info = None"
    by (simp_all add: S4_info_def)
  ultimately show ?thesis by simp
qed

text \<open>
  C1, amended. For S4 the decoder returns \<open>receipt = request\<close>, the start line under
  \<open>header.request\<close> (method GET, target /index.html, version 1.1), the fields under
  \<open>header.Host\<close> and \<open>header.Accept\<close>, and \<open>None\<close> for \<open>body\<close>, because the body is
  empty: whatever encoding the detector reports, decoding no octets gives no text.
\<close>

theorem http_request_record:
  "(\<forall>charset text. codec charset [] = Some text \<longrightarrow> text = []) \<longrightarrow>
     fst (read_http detect codec int_of None S4) = Inr S4_info \<and>
     attr_path [''receipt''] S4_info = Some (PStr ''request'') \<and>
     attr_path [''header'', ''request'', ''method''] S4_info = Some (PStr ''GET'') \<and>
     attr_path [''header'', ''request'', ''target''] S4_info = Some (PStr ''/index.html'') \<and>
     attr_path [''header'', ''request'', ''version''] S4_info = Some (PStr ''1.1'') \<and>
     attr_path [''header'', ''Host''] S4_info = Some (PStr ''example.com'') \<and>
     attr_path [''header'', ''Accept''] S4_info = Some (PStr ''*/*'') \<and>
     attr_path [''body''] S4_info = Some PNone"
proof
  assume codec: "\<forall>charset text. codec charset [] = Some text \<longrightarrow> text = []"
  have "fst (read_http detect codec int_of None S4) = Inr S4_info"
    by (simp add: read_http_def file_read_def S4_packet S4_header and_then_def
        empty_body [where codec = codec, OF codec] S4_info_def del: split_paired_All)
  moreover have "attr_path [''receipt''] S4_info = Some (PStr ''request'')"
     "attr_path [''header'', ''request'', ''method''] S4_info = Some (PStr ''GET'')"
     "attr_path [''header'', ''request'', ''target''] S4_info = Some (PStr ''/index.html'')"
     "attr_path [''header'', ''request'', ''version''] S4_info = Some (PStr ''1.1'')"
     "attr_path [''header'', ''Host''] S4_info = Some (PStr ''example.com'')"
     "attr_path [''header'', ''Accept''] S4_info = Some (PStr ''*/*'')"
     "attr_path [''body''] S4_info = Some PNone"
    by (simp_all add: S4_info_def)
  ultimately show "fst (read_http detect codec int_of None S4) = Inr S4_info \<and>
     attr_path [''receipt''] S4_info = Some (PStr ''request'') \<and>
     attr_path [''header'', ''request'', ''method''] S4_info = Some (PStr ''GET'') \<and>
     attr_path [''header'', ''request'', ''target''] S4_info = Some (PStr ''/index.html'') \<and>
     attr_path [''header'', ''request'', ''version''] S4_info = Some (PStr ''1.1'') \<and>
     attr_path [''header'', ''Host''] S4_info = Some (PStr ''example.com'') \<and>
     attr_path [''header'', ''Accept''] S4_info = Some (PStr ''*/*'') \<and>
     attr_path [''body''] S4_info = Some PNone"
    by simp
qed

theorem http_request_record_witness:
  "fst (read_http ascii_detect ascii_codec digits_int None S4) = Inr S4_info \<and>
   ascii_detect [] = Some ''ascii'' \<and> ascii_codec ''ascii'' [] = Some []"
proof -
  have codec: "\<forall>charset text. ascii_codec charset [] = Some text \<longrightarrow> text = []"
    by (simp add: ascii_codec_def)
  from http_request_record [of ascii_codec ascii_detect digits_int, THEN mp, OF codec]
  show ?thesis by (simp add: ascii_detect_def ascii_codec_def)
qed



text \<open>
  C4. The decoder fails with ProtocolError \<open>HTTP: invalid format\<close> (the MalformedHeader
  kind) when the payload has no \<open>\r\n\r\n\<close>, and also when the start line has neither
  the request form nor the response form: when the header block has no \<open>\r\n\<close> after
  the start line, when the start line has fewer than three fields, or when the fields
  match neither pair of patterns. The payload \<open>FOO BAR BAZ\r\n\r\n\<close> fails this way.
\<close>

theorem http_malformed:
  "(split_once (CRLF @ CRLF) (fst (file_read n f)) = None \<longrightarrow>
      fst (read_http detect codec int_of n f) = Inl (ProtocolError ''HTTP: invalid format'')) \<and>
   (split_once (CRLF @ CRLF) (fst (file_read n f)) = Some (header, body) \<and>
    (split_once CRLF header = None \<or>
     (split_once CRLF header = Some (startline, headerfield) \<and>
      (length (re_split_ws 2 startline) \<noteq> 3 \<or>
       (re_split_ws 2 startline = [A, B, C] \<and>
        \<not> (match_method A \<and> match_version C \<noteq> None) \<and>
        \<not> (match_version A \<noteq> None \<and> match_status B))))) \<longrightarrow>
      fst (read_http detect codec int_of n f) = Inl (ProtocolError ''HTTP: invalid format'')) \<and>
   fst (read_http detect codec int_of None S6) = Inl (ProtocolError ''HTTP: invalid format'')"
proof (intro conjI impI)
  assume "split_once (CRLF @ CRLF) (fst (file_read n f)) = None"
  then show "fst (read_http detect codec int_of n f) = Inl (ProtocolError ''HTTP: invalid format'')"
    by (simp add: read_http_def case_prod_beta invalid_format_def)
next
  assume a: "split_once (CRLF @ CRLF) (fst (file_read n f)) = Some (header, body) \<and>
    (split_once CRLF header = None \<or>
     (split_once CRLF header = Some (startline, headerfield) \<and>
      (length (re_split_ws 2 startline) \<noteq> 3 \<or>
       (re_split_ws 2 startline = [A, B, C] \<and>
        \<not> (match_method A \<and> match_version C \<noteq> None) \<and>
        \<not> (match_version A \<noteq> None \<and> match_status B)))))"
  have "read_http_header int_of header = Inl invalid_format"
  proof -
    consider (nocrlf) "split_once CRLF header = None"
      | (tokens) "split_once CRLF header = Some (startline, headerfield)"
          "length (re_split_ws 2 startline) \<noteq> 3"
      | (form) "split_once CRLF header = Some (startline, headerfield)"
          "re_split_ws 2 startline = [A, B, C]"
          "\<not> (match_method A \<and> match_version C \<noteq> None)"
          "\<not> (match_version A \<noteq> None \<and> match_status B)"
      using a by (elim conjE disjE) blast+
    then show ?thesis
    proof cases
      case nocrlf
      then show ?thesis by (simp add: read_http_header_def)
    next
      case tokens
      then show ?thesis
        by (auto simp: read_http_header_def split: list.splits)
    next
      case form
      then have "start_line int_of A B C = Inl invalid_format"
        by (auto simp: start_line_def Let_def)
      with form(1,2) show ?thesis
        by (simp add: read_http_header_def and_then_def Let_def)
    qed
  qed
  with a show "fst (read_http detect codec int_of n f) = Inl (ProtocolError ''HTTP: invalid format'')"
    by (simp add: read_http_def case_prod_beta and_then_def invalid_format_def)
next
  show "fst (read_http detect codec int_of None S6) = Inl (ProtocolError ''HTTP: invalid format'')"
    by (simp add: S6_def read_http_def read_http_header_def file_read_def CRLF_def
        and_then_def invalid_format_def)
qed

theorem http_malformed_witness:
  "fst (read_http no_detect ascii_codec digits_int None no_separator) =
     Inl (ProtocolError ''HTTP: invalid format'') \<and>
   fst (read_http no_detect ascii_codec digits_int None neither_form) =
     Inl (ProtocolError ''HTTP: invalid format'') \<and>
   split_once (CRLF @ CRLF) no_separator = None \<and>
   split_once (CRLF @ CRLF) neither_form = Some (''FOO BAR BAZ'' @ CRLF @ ''Host: example.com'', []) \<and>
   split_once CRLF (''FOO BAR BAZ'' @ CRLF @ ''Host: example.com'') = Some (''FOO BAR BAZ'', ''Host: example.com'') \<and>
   re_split_ws 2 ''FOO BAR BAZ'' = [''FOO'', ''BAR'', ''BAZ''] \<and>
   \<not> match_method ''FOO'' \<and> match_version ''FOO'' = None"
proof -
  have 1: "split_once (CRLF @ CRLF) (fst (file_read None no_separator)) = None"
    by (simp add: no_separator_def file_read_def CRLF_def)
  have 2: "split_once (CRLF @ CRLF) (fst (file_read None neither_form)) =
      Some (''FOO BAR BAZ'' @ CRLF @ ''Host: example.com'', [])"
    by (simp add: neither_form_def file_read_def CRLF_def)
  have 3: "split_once CRLF (''FOO BAR BAZ'' @ CRLF @ ''Host: example.com'') =
      Some (''FOO BAR BAZ'', ''Host: example.com'')"
    by (simp add: CRLF_def)
  have 4: "re_split_ws 2 ''FOO BAR BAZ'' = [''FOO'', ''BAR'', ''BAZ'']"
    by (simp add: numeral_2_eq_2 is_space_def Let_def)
  have 5: "\<not> match_method ''FOO''" "match_version ''FOO'' = None"
    by (simp_all add: match_method_def match_version_def)
  from http_malformed [of None no_separator no_detect ascii_codec digits_int, THEN conjunct1, THEN mp, OF 1]
  have a: "fst (read_http no_detect ascii_codec digits_int None no_separator) =
     Inl (ProtocolError ''HTTP: invalid format'')" .
  have "fst (read_http no_detect ascii_codec digits_int None neither_form) =
     Inl (ProtocolError ''HTTP: invalid format'')"
    by (rule http_malformed [of None neither_form no_detect ascii_codec digits_int
          "''FOO BAR BAZ'' @ CRLF @ ''Host: example.com''" "[]" "''FOO BAR BAZ''" "''Host: example.com''"
          "''FOO''" "''BAR''" "''BAZ''", THEN conjunct2, THEN conjunct1, THEN mp])
       (use 2 3 4 5 in simp)
  with a 1 2 3 4 5 show ?thesis by (simp add: file_read_def)
qed









text \<open>
  C6, as stated, fails. The key \<open>X-request-id\<close> is not stored under its raw name:
  \<open>str.replace\<close> rewrites the occurrence of \<open>request\<close> inside it.
\<close>

theorem http_field_key_claim_counterexample:
  "field_key ''X-request-id'' = ''X-request_field-id'' \<and>
   strip ''X-request-id'' = ''X-request-id'' \<and>
   add_field [] [''X-request-id'', ''7''] = Inr [(''X-request_field-id'', PStr ''7'')] \<and>
   field_key ''Preresponse'' = ''Preresponse_field''"
  by (simp add: http_eval)

text \<open>
  C6, amended. A field is stored under its stripped key with every occurrence of
  \<open>request\<close> replaced by \<open>request_field\<close> and then every occurrence of
  \<open>response\<close> by \<open>response_field\<close>, case-sensitively. So the keys \<open>request\<close> and
  \<open>response\<close> become \<open>request_field\<close> and \<open>response_field\<close>, and a key is stored
  unchanged exactly when it contains neither text.
\<close>

theorem http_field_key:
  "field_key ''request'' = ''request_field'' \<and>
   field_key ''response'' = ''response_field'' \<and>
   field_key ''Request'' = ''Request'' \<and>
   field_key k = replace ''response'' ''response_field'' (replace ''request'' ''request_field'' (strip k)) \<and>
   (field_key k = strip k \<longleftrightarrow>
      \<not> contains ''request'' (strip k) \<and> \<not> contains ''response'' (strip k)) \<and>
   (utf8_ok 0 0x80 0xBF k \<and> utf8_ok 0 0x80 0xBF v \<longrightarrow>
      add_field h [k, v] =
        Inr (dict_set h (field_key k)
               (case map_of h (field_key k) of
                  Some (PTuple vs) \<Rightarrow> PTuple (vs @ [PStr (strip v)])
                | Some old \<Rightarrow> PTuple [old, PStr (strip v)]
                | None \<Rightarrow> PStr (strip v))))"
proof (intro conjI impI)
  show "field_key ''request'' = ''request_field''"
    by (simp add: http_eval)
  show "field_key ''response'' = ''response_field''"
    by (simp add: http_eval)
  show "field_key ''Request'' = ''Request''"
    by (simp add: http_eval)
  show "field_key k = replace ''response'' ''response_field'' (replace ''request'' ''request_field'' (strip k))"
    by (simp add: field_key_def)
  show "field_key k = strip k \<longleftrightarrow>
      \<not> contains ''request'' (strip k) \<and> \<not> contains ''response'' (strip k)"
    by (rule field_key_unchanged_iff)
  assume "utf8_ok 0 0x80 0xBF k \<and> utf8_ok 0 0x80 0xBF v"
  then show "add_field h [k, v] =
        Inr (dict_set h (field_key k)
               (case map_of h (field_key k) of
                  Some (PTuple vs) \<Rightarrow> PTuple (vs @ [PStr (strip v)])
                | Some old \<Rightarrow> PTuple [old, PStr (strip v)]
                | None \<Rightarrow> PStr (strip v)))"
    by (simp add: add_field_def and_then_def decode_def Let_def)
qed

theorem http_field_key_witness:
  "add_field [(''Host'', PStr ''example.com'')] [''request'', ''yes''] =
     Inr [(''Host'', PStr ''example.com''), (''request_field'', PStr ''yes'')] \<and>
   utf8_ok 0 0x80 0xBF ''request'' \<and> utf8_ok 0 0x80 0xBF ''yes''"
proof -
  have ok: "utf8_ok 0 0x80 0xBF ''request'' \<and> utf8_ok 0 0x80 0xBF ''yes''"
    by simp
  from http_field_key [of "''request''" "''yes''" "[(''Host'', PStr ''example.com'')]",
      THEN conjunct2, THEN conjunct2, THEN conjunct2, THEN conjunct2, THEN conjunct2, THEN mp, OF ok]
  have "add_field [(''Host'', PStr ''example.com'')] [''request'', ''yes''] =
      Inr (dict_set [(''Host'', PStr ''example.com'')] (field_key ''request'')
             (case map_of [(''Host'', PStr ''example.com'')] (field_key ''request'') of
                  Some (PTuple vs) \<Rightarrow> PTuple (vs @ [PStr (strip ''yes'')])
                | Some old \<Rightarrow> PTuple [old, PStr (strip ''yes'')]
                | None \<Rightarrow> PStr (strip ''yes'')))" .
  moreover have "field_key ''request'' = ''request_field''" "strip ''yes'' = ''yes''"
    by (simp_all add: http_eval)
  ultimately show ?thesis using ok by simp
qed


end
